theory Spec2Isabelle
  imports Main
begin

section \<open>JavaScript values used by the code\<close>

text \<open>
  An optional string (\<open>string | undefined\<close>) is a \<open>string option\<close>. JavaScript treats
  \<open>undefined\<close> and the empty string as false in a condition; every other string is
  true. Arrays and objects are always true, so an optional array is tested with
  \<open>None\<close>/\<open>Some\<close> alone.
\<close>

definition truthy :: "string option \<Rightarrow> bool" where
  "truthy s = (case s of None \<Rightarrow> False | Some v \<Rightarrow> v \<noteq> [])"

text \<open>\<open>a ?? b\<close> (nullish coalescing) and \<open>a || b\<close> on an optional number.\<close>

definition nullish :: "'a option \<Rightarrow> 'a \<Rightarrow> 'a" where
  "nullish a b = (case a of None \<Rightarrow> b | Some v \<Rightarrow> v)"

definition or_zero :: "int option \<Rightarrow> int" where
  "or_zero a = (case a of None \<Rightarrow> 0 | Some v \<Rightarrow> v)"

section \<open>Agent runtime: settings resolver (agent.ts, \<open>getEffectiveSettings\<close>)\<close>

text \<open>\<open>McpServerConfig\<close> is a type of the agent SDK; the code only copies it.\<close>

datatype McpServerConfig = McpServerConfig string

record ToolSettings =
  ts_allowedTools :: "string list option"
  ts_disabledTools :: "string list option"

record McpSettingsOverride =
  ms_enabledServers :: "string list option"
  ms_disabledServers :: "string list option"

record ModalityRuntimeSettings =
  mrs_maxThinkingTokens :: "int option"
  mrs_maxTurns :: "int option"
  mrs_toolSettings :: "ToolSettings option"
  mrs_mcpSettings :: "McpSettingsOverride option"

text \<open>The \<open>modalitySettings\<close> block of \<open>AgentConfig\<close>: three optional entries.\<close>

record ModalitySettings =
  mod_chat :: "ModalityRuntimeSettings option"
  mod_email :: "ModalityRuntimeSettings option"
  mod_voice :: "ModalityRuntimeSettings option"

text \<open>
  \<open>mcpServers\<close> is a JavaScript object used as a dictionary; \<open>Object.entries\<close> lists it in
  insertion order, so it is an association list here.
\<close>

record AgentConfig =
  cfg_allowedTools :: "string list"
  cfg_mcpServers :: "(string \<times> McpServerConfig) list"
  cfg_additionalInstructions :: string
  cfg_maxTurns :: int
  cfg_modalitySettings :: "ModalitySettings option"

record EffectiveSettings =
  eff_maxTurns :: int
  eff_maxThinkingTokens :: int
  eff_allowedTools :: "string list"
  eff_mcpServers :: "(string \<times> McpServerConfig) list"

text \<open>\<open>config.modalitySettings?.[modality]\<close>: the entry named by the modality string.\<close>

definition modality_entry :: "ModalitySettings \<Rightarrow> string \<Rightarrow> ModalityRuntimeSettings option" where
  "modality_entry ms m =
     (if m = ''chat'' then mod_chat ms
      else if m = ''email'' then mod_email ms
      else if m = ''voice'' then mod_voice ms
      else None)"

definition lookup_modality :: "AgentConfig \<Rightarrow> string option \<Rightarrow> ModalityRuntimeSettings option" where
  "lookup_modality config modality =
     (case modality of
        None \<Rightarrow> None
      | Some m \<Rightarrow>
          if m = [] then None
          else (case cfg_modalitySettings config of
                  None \<Rightarrow> None
                | Some ms \<Rightarrow> modality_entry ms m))"

text \<open>The built-in defaults of the \<open>switch (modality)\<close>, as (maxTurns, maxThinkingTokens).\<close>

definition modality_defaults :: "int \<Rightarrow> string option \<Rightarrow> int \<times> int" where
  "modality_defaults maxTurns modality =
     (if truthy modality then
        (if modality = Some ''chat'' then (min maxTurns 15, 5000)
         else if modality = Some ''voice'' then (min maxTurns 10, 5000)
         else (maxTurns, 10000))
      else (maxTurns, 10000))"

definition getEffectiveSettings :: "AgentConfig \<Rightarrow> string option \<Rightarrow> EffectiveSettings" where
  "getEffectiveSettings config modality =
     (let modalitySettings = lookup_modality config modality;
          limits =
            (case modalitySettings of
               Some s \<Rightarrow> (nullish (mrs_maxTurns s) (cfg_maxTurns config),
                          nullish (mrs_maxThinkingTokens s) 10000)
             | None \<Rightarrow> modality_defaults (cfg_maxTurns config) modality);
          toolSettings = Option.bind modalitySettings mrs_toolSettings;
          allowedTools0 = cfg_allowedTools config;
          allowedTools1 =
            (case Option.bind toolSettings ts_allowedTools of
               Some allow \<Rightarrow> allow
             | None \<Rightarrow> allowedTools0);
          allowedTools2 =
            (case Option.bind toolSettings ts_disabledTools of
               Some disabled \<Rightarrow> filter (\<lambda>t. t \<notin> set disabled) allowedTools1
             | None \<Rightarrow> allowedTools1);
          mcpSettings = Option.bind modalitySettings mrs_mcpSettings;
          mcpServers0 = cfg_mcpServers config;
          mcpServers1 =
            (case Option.bind mcpSettings ms_enabledServers of
               Some enabled \<Rightarrow> filter (\<lambda>(name, _). name \<in> set enabled) mcpServers0
             | None \<Rightarrow> mcpServers0);
          mcpServers2 =
            (case Option.bind mcpSettings ms_disabledServers of
               Some disabled \<Rightarrow> filter (\<lambda>(name, _). name \<notin> set disabled) mcpServers1
             | None \<Rightarrow> mcpServers1)
      in \<lparr> eff_maxTurns = fst limits,
           eff_maxThinkingTokens = snd limits,
           eff_allowedTools = allowedTools2,
           eff_mcpServers = mcpServers2 \<rparr>)"

section \<open>Agent runtime: one turn (agent.ts, \<open>processMessage\<close>)\<close>

subsection \<open>Messages of the agent SDK\<close>

datatype ContentBlock =
    TextBlock string
  | ThinkingBlock string
  | ToolUseBlock string string  \<comment> \<open>id, name\<close>

datatype ConfidenceLevel = high | medium | low

text \<open>
  \<open>ResponseMetadata\<close> (schema.ts). \<open>processMessage\<close> reads \<open>confidence\<close> and \<open>guidesUsed\<close>;
  the other fields (customer analysis, flags, quality checks) are copied as they are and
  stand here as one opaque value.
\<close>

record ResponseMetadata =
  rm_confidence :: ConfidenceLevel
  rm_guidesUsed :: "string list"
  rm_rest :: string

record AgentResponse =
  ar_response :: string
  ar_metadata :: ResponseMetadata

record SdkUsage =
  input_tokens :: "int option"
  output_tokens :: "int option"

text \<open>
  The messages \<open>query\<close> yields, by their \<open>type\<close> field. A result message carries its
  subtype, \<open>is_error\<close>, \<open>usage\<close>, \<open>total_cost_usd\<close> and \<open>structured_output\<close>; the cost is
  only copied, so its unit is left open.
\<close>

datatype SdkMessage =
    SystemMessage string "string option"  \<comment> \<open>subtype, session_id\<close>
  | AssistantMessage "ContentBlock list"
  | UserMessage
  | StreamEventMessage
  | ResultMessage string bool "SdkUsage option" "int option" "AgentResponse option"

text \<open>What the async iterator does: it yields the messages, then ends or throws.\<close>

record SdkStream =
  sdk_messages :: "SdkMessage list"
  sdk_failure :: "string option"

subsection \<open>Input, options and result\<close>

record Metadata =
  md_customerEmail :: "string option"
  md_modality :: "string option"

record ProcessMessageInput =
  in_message :: string
  in_conversationId :: "string option"
  in_customerId :: "string option"
  in_metadata :: "Metadata option"
  in_requestId :: string

text \<open>
  The options passed to \<open>query\<close> that depend on the input. The constant ones (setting
  sources, permission mode, working directory, output format, CLI path) are left out.
\<close>

record QueryOptions =
  q_prompt :: string
  q_append :: "string option"
  q_allowedTools :: "string list"
  q_mcpServers :: "(string \<times> McpServerConfig) list"
  q_maxTurns :: int
  q_maxThinkingTokens :: int
  q_resume :: "string option"

record Usage =
  inputTokens :: int
  outputTokens :: int
  totalCostUsd :: int

record ProcessMessageResult =
  pm_response :: string
  pm_guidesUsed :: "string list"
  pm_confidence :: ConfidenceLevel
  pm_toolsUsed :: "string list"
  pm_usage :: Usage
  pm_metadata :: "ResponseMetadata option"

datatype AgentError = SdkFailure string

text \<open>\<open>activeSessions\<close>: a module-level \<open>Map\<close> from conversation id to SDK session id.\<close>

type_synonym SessionRegistry = "string \<rightharpoonup> string"

definition activeSessions_init :: SessionRegistry where
  "activeSessions_init = Map.empty"

subsection \<open>\<open>buildContextString\<close>\<close>

definition nl :: string where
  "nl = [CHR 0x0A]"

fun join_lines :: "string list \<Rightarrow> string" where
  "join_lines [] = []"
| "join_lines [x] = x"
| "join_lines (x # y # ys) = x @ nl @ join_lines (y # ys)"

definition push_if :: "string \<Rightarrow> string option \<Rightarrow> string list" where
  "push_if label v = (case v of None \<Rightarrow> [] | Some x \<Rightarrow> if x = [] then [] else [label @ x])"

definition buildContextString :: "ProcessMessageInput \<Rightarrow> string" where
  "buildContextString input =
     (let contextParts =
            push_if ''Conversation ID: '' (in_conversationId input)
            @ push_if ''Customer ID: '' (in_customerId input)
            @ (case in_metadata input of
                 None \<Rightarrow> []
               | Some md \<Rightarrow>
                   push_if ''Customer Email: '' (md_customerEmail md)
                   @ push_if ''Channel: '' (md_modality md))
      in if contextParts \<noteq> []
         then ''Context:'' @ nl @ join_lines contextParts @ nl @ nl
         else [])"

subsection \<open>The body of the \<open>for await\<close> loop\<close>

record LoopState =
  ls_sessions :: SessionRegistry
  ls_toolsUsed :: "string list"
  ls_responseText :: string
  ls_usage :: Usage
  ls_structuredMetadata :: "ResponseMetadata option"

fun tool_names :: "ContentBlock list \<Rightarrow> string list" where
  "tool_names [] = []"
| "tool_names (ToolUseBlock i n # bs) = n # tool_names bs"
| "tool_names (b # bs) = tool_names bs"

definition no_output_text :: string where
  "no_output_text = ''I apologize, but I encountered an issue generating a response.''"

fun on_message :: "string option \<Rightarrow> LoopState \<Rightarrow> SdkMessage \<Rightarrow> LoopState" where
  "on_message conversationId s (SystemMessage subtype session_id) =
     (case (conversationId, session_id) of
        (Some c, Some sid) \<Rightarrow>
          if subtype = ''init'' \<and> c \<noteq> [] \<and> sid \<noteq> []
          then s\<lparr>ls_sessions := (ls_sessions s)(c \<mapsto> sid)\<rparr>
          else s
      | _ \<Rightarrow> s)"
| "on_message conversationId s (AssistantMessage content) =
     s\<lparr>ls_toolsUsed := ls_toolsUsed s @ tool_names content\<rparr>"
| "on_message conversationId s (ResultMessage subtype is_error usage cost structured_output) =
     (if subtype = ''success'' then
        (let s1 = s\<lparr>ls_usage :=
                      \<lparr> inputTokens = or_zero (Option.bind usage input_tokens),
                        outputTokens = or_zero (Option.bind usage output_tokens),
                        totalCostUsd = or_zero cost \<rparr>\<rparr>
         in case structured_output of
              Some output \<Rightarrow>
                s1\<lparr>ls_responseText := ar_response output,
                   ls_structuredMetadata := Some (ar_metadata output)\<rparr>
            | None \<Rightarrow> s1\<lparr>ls_responseText := no_output_text\<rparr>)
      else s)"
| "on_message conversationId s m = s"

subsection \<open>\<open>processMessage\<close>\<close>

record TurnOutcome =
  to_result :: "AgentError + ProcessMessageResult"
  to_sessions :: SessionRegistry
  to_query :: QueryOptions

text \<open>
  The options of the \<open>query\<close> call, from the lines of \<open>processMessage\<close> before the loop:
  the effective settings, the session to resume and the prompt.
\<close>

definition query_options ::
  "AgentConfig \<Rightarrow> SessionRegistry \<Rightarrow> ProcessMessageInput \<Rightarrow> QueryOptions" where
  "query_options config sessions input =
     (let modality = Option.bind (in_metadata input) md_modality;
          effective = getEffectiveSettings config modality;
          existingSessionId =
            (case in_conversationId input of
               None \<Rightarrow> None
             | Some c \<Rightarrow> if c = [] then None else sessions c);
          contextString = buildContextString input;
          fullPrompt =
            (if contextString \<noteq> []
             then contextString @ ''Customer message:'' @ nl @ in_message input
             else in_message input)
      in \<lparr> q_prompt = fullPrompt,
           q_append =
             (if cfg_additionalInstructions config \<noteq> []
              then Some (cfg_additionalInstructions config) else None),
           q_allowedTools = eff_allowedTools effective,
           q_mcpServers = eff_mcpServers effective,
           q_maxTurns = eff_maxTurns effective,
           q_maxThinkingTokens = eff_maxThinkingTokens effective,
           q_resume = (if truthy existingSessionId then existingSessionId else None) \<rparr>)"

text \<open>
  \<open>processMessage\<close> with the registry and the SDK made explicit: \<open>sdk\<close> maps the options
  of the \<open>query\<close> call to what its iterator does. The registry is updated inside the
  loop, so it keeps the updates of a turn whose iterator throws later.
\<close>

definition processMessage ::
  "AgentConfig \<Rightarrow> SessionRegistry \<Rightarrow> ProcessMessageInput \<Rightarrow> (QueryOptions \<Rightarrow> SdkStream)
     \<Rightarrow> TurnOutcome" where
  "processMessage config sessions input sdk =
     (let options = query_options config sessions input;
          stream = sdk options;
          s0 = \<lparr> ls_sessions = sessions, ls_toolsUsed = [], ls_responseText = [],
                 ls_usage = \<lparr> inputTokens = 0, outputTokens = 0, totalCostUsd = 0 \<rparr>,
                 ls_structuredMetadata = None \<rparr>;
          s = foldl (on_message (in_conversationId input)) s0 (sdk_messages stream)
      in \<lparr> to_result =
             (case sdk_failure stream of
                Some e \<Rightarrow> Inl (SdkFailure e)
              | None \<Rightarrow>
                  Inr \<lparr> pm_response = ls_responseText s,
                        pm_guidesUsed =
                          (case ls_structuredMetadata s of
                             Some md \<Rightarrow> rm_guidesUsed md
                           | None \<Rightarrow> filter (\<lambda>t. t = ''Read'') (ls_toolsUsed s)),
                        pm_confidence =
                          (case ls_structuredMetadata s of
                             Some md \<Rightarrow> rm_confidence md
                           | None \<Rightarrow> if ls_toolsUsed s \<noteq> [] then high else medium),
                        pm_toolsUsed = ls_toolsUsed s,
                        pm_usage = ls_usage s,
                        pm_metadata = ls_structuredMetadata s \<rparr>),
           to_sessions = ls_sessions s,
           to_query = options \<rparr>)"

text \<open>
  The orchestrator starts \<open>node server.mjs\<close> in a sandbox it has just created, for one
  request, and stops the sandbox afterwards (sandbox-manager.ts). The agent process of a
  request therefore begins with the module-level \<open>activeSessions = new Map()\<close>.
\<close>

definition sandboxed_turn ::
  "AgentConfig \<Rightarrow> ProcessMessageInput \<Rightarrow> (QueryOptions \<Rightarrow> SdkStream) \<Rightarrow> TurnOutcome" where
  "sandboxed_turn config input sdk = processMessage config activeSessions_init input sdk"

section \<open>Orchestrator: configuration on the host (config-loader.ts, snapshot-manager.ts)\<close>

text \<open>
  Every \<open>throw new Error(...)\<close> of the orchestrator is a constructor here, and a rejected
  promise of the sandbox SDK or of \<open>fetch\<close> is one too. \<open>ConfigNotFound\<close> says which part
  of \<open>agent-configs/{agentId}/\<close> is missing.
\<close>

datatype MissingPart = AgentDirectory | ClaudeMd | AgentConfigJson

datatype SandboxError =
    ConfigNotFound MissingPart string  \<comment> \<open>what is missing, agent id\<close>
  | ConfigUnreadable                   \<comment> \<open>\<open>JSON.parse\<close> of agent-config.json throws\<close>
  | BundleNotFound                     \<comment> \<open>dist/agent-server.mjs is missing\<close>
  | ProviderFailure string             \<comment> \<open>a call of the sandbox SDK rejects\<close>
  | ProvisioningFailed string          \<comment> \<open>npm install exits non-zero; its stderr\<close>
  | HealthTimeout                      \<comment> \<open>"Health check timed out after ...ms"\<close>
  | NetworkFailure string              \<comment> \<open>\<open>fetch\<close> rejects\<close>
  | UpstreamError nat string           \<comment> \<open>non-2xx reply of the agent: status, body\<close>
  | ReplyUnreadable                    \<comment> \<open>\<open>res.json()\<close> rejects\<close>

text \<open>
  The directory of one agent as the loader sees it: each file is absent or has a content;
  agent-config.json either parses or not (the parsed object stands as its text);
  \<open>dir_skills\<close> lists the files below .claude/skills with their relative paths, as
  \<open>loadSkillsRecursive\<close> collects them, and is \<open>None\<close> when that directory is absent.
\<close>

datatype JsonFile = Unparsable | Parsed string

record AgentDir =
  dir_claudeMd :: "string option"
  dir_agentConfig :: "JsonFile option"
  dir_skills :: "(string \<times> string) list option"

record AgentConfigBundle =
  bundle_claudeMd :: string
  bundle_agentConfig :: string
  bundle_skills :: "(string \<times> string) list"

definition loadAgentConfig ::
  "(string \<Rightarrow> AgentDir option) \<Rightarrow> string \<Rightarrow> SandboxError + AgentConfigBundle" where
  "loadAgentConfig dirs agentId =
     (case dirs agentId of
        None \<Rightarrow> Inl (ConfigNotFound AgentDirectory agentId)
      | Some d \<Rightarrow>
          (case dir_claudeMd d of
             None \<Rightarrow> Inl (ConfigNotFound ClaudeMd agentId)
           | Some md \<Rightarrow>
               (case dir_agentConfig d of
                  None \<Rightarrow> Inl (ConfigNotFound AgentConfigJson agentId)
                | Some Unparsable \<Rightarrow> Inl ConfigUnreadable
                | Some (Parsed cfg) \<Rightarrow>
                    Inr \<lparr> bundle_claudeMd = md, bundle_agentConfig = cfg,
                          bundle_skills = (case dir_skills d of None \<Rightarrow> [] | Some sk \<Rightarrow> sk) \<rparr>)))"

definition loadAgentBundle :: "string option \<Rightarrow> SandboxError + string" where
  "loadAgentBundle bundle = (case bundle of None \<Rightarrow> Inl BundleNotFound | Some b \<Rightarrow> Inr b)"

definition is_space :: "char \<Rightarrow> bool" where
  "is_space c = (c \<in> set [CHR '' '', CHR 0x09, CHR 0x0A, CHR 0x0B, CHR 0x0C, CHR 0x0D])"

definition trim :: "string \<Rightarrow> string" where
  "trim s = rev (dropWhile is_space (rev (dropWhile is_space s)))"

text \<open>\<open>getSnapshotId\<close>: the trimmed content of .snapshot-id, \<open>null\<close> if absent or empty.\<close>

definition getSnapshotId :: "string option \<Rightarrow> string option" where
  "getSnapshotId file =
     (case file of
        None \<Rightarrow> None
      | Some content \<Rightarrow> if trim content = [] then None else Some (trim content))"

text \<open>The package manifest written into every sandbox is a constant of the source.\<close>

definition package_json :: string where
  "package_json = ''{name: sandbox-agent, type: module, dependencies: ...}''"

definition buildSandboxFiles :: "string \<Rightarrow> AgentConfigBundle \<Rightarrow> (string \<times> string) list" where
  "buildSandboxFiles agentBundle cfg =
     [(''server.mjs'', agentBundle),
      (''CLAUDE.md'', bundle_claudeMd cfg),
      (''agent-config.json'', bundle_agentConfig cfg),
      (''package.json'', package_json)]
     @ map (\<lambda>(relativePath, content). (''.claude/skills/'' @ relativePath, content)) (bundle_skills cfg)"

section \<open>Orchestrator: sandbox lifecycle (sandbox-manager.ts)\<close>

subsection \<open>The sandbox provider and the clock\<close>

text \<open>
  An awaited call either rejects or resolves, and takes some time. \<open>Date.now()\<close> is a
  clock in milliseconds that the awaited calls advance; the synchronous statements
  between them take no time. Timers fire on time.
\<close>

datatype 'a Outcome = Rejects string | Resolves 'a

datatype Sandbox = Sandbox string

text \<open>
  What \<open>fetch\<close> on the health URL meets: a refused connection, a reply with a status and
  a body that is JSON or not, or no reply at all; with the time the reply takes.
\<close>

datatype HealthReply = ConnectionRefused | HttpStatus nat bool | NoReply

record HealthAttempt =
  reply :: HealthReply
  latency :: nat

record AgentProcessResponse =
  apr_requestId :: string
  apr_response :: string
  apr_guidesUsed :: "string list option"
  apr_confidence :: "string option"
  apr_duration :: int
  apr_metadata :: "string option"
  apr_error :: "string option"

record HttpReply =
  http_status :: nat
  http_text :: string
  http_json :: "AgentProcessResponse option"

text \<open>The body of a streaming reply: its chunks, and whether it errors instead of closing.\<close>

record Upstream =
  up_chunks :: "string list"
  up_aborts :: bool

record StreamReply =
  sr_status :: nat
  sr_text :: string
  sr_body :: "Upstream option"

record World =
  w_agentDirs :: "string \<Rightarrow> AgentDir option"
  w_bundle :: "string option"
  w_snapshotFile :: "string option"
  w_loadTime :: nat
  w_create :: "Sandbox Outcome \<times> nat"
  w_writeFiles :: "unit Outcome \<times> nat"
  w_install :: "(int \<times> string) Outcome \<times> nat"
  w_start :: "unit Outcome \<times> nat"
  w_domain :: string
  w_health :: "nat \<Rightarrow> HealthAttempt"
  w_process :: "HttpReply Outcome \<times> nat"
  w_stream :: "StreamReply Outcome \<times> nat"
  w_stop :: "unit Outcome \<times> nat"

text \<open>The calls that leave the host, in the order they are issued.\<close>

datatype NetCall =
    Create "string option"
  | WriteFiles "string list"
  | RunCommand string "string list" bool
  | Domain nat
  | Stop Sandbox
  | Fetch string

record ExecutionTiming =
  sandboxCreate :: int
  fileWrite :: int
  serverStart :: int
  healthPoll :: int
  agentProcess :: int
  total :: int

text \<open>
  The state a request threads through: the clock, the calls issued so far and the
  \<open>timing\<close> object. \<open>setupSandbox\<close> writes \<open>timing\<close> only when it is given one; the
  streaming entry point gives none and never reads it, so there the record is ignored.
\<close>

record Run =
  now :: int
  calls :: "NetCall list"
  timing :: ExecutionTiming

definition elapse :: "nat \<Rightarrow> Run \<Rightarrow> Run" where
  "elapse d r = r\<lparr>now := now r + int d\<rparr>"

definition step :: "NetCall \<Rightarrow> nat \<Rightarrow> Run \<Rightarrow> Run" where
  "step c d r = r\<lparr>now := now r + int d, calls := calls r @ [c]\<rparr>"

definition SANDBOX_TIMEOUT_MS :: nat where "SANDBOX_TIMEOUT_MS = 5 * 60 * 1000"
definition HEALTH_POLL_TIMEOUT_MS :: nat where "HEALTH_POLL_TIMEOUT_MS = 30000"
definition HEALTH_POLL_INTERVAL_MS :: nat where "HEALTH_POLL_INTERVAL_MS = 500"
definition AGENT_PORT :: nat where "AGENT_PORT = 3000"

definition ok_status :: "nat \<Rightarrow> bool" where
  "ok_status s = (200 \<le> s \<and> s \<le> 299)"

subsection \<open>\<open>pollHealth\<close>\<close>

text \<open>
  One pass through the \<open>try\<close> block: \<open>fetch\<close> with \<open>AbortSignal.timeout(2000)\<close>, then
  \<open>res.ok\<close> and \<open>res.json()\<close>. The result says whether the function returns here, and how
  long the pass took. Whatever throws inside lands in the empty \<open>catch\<close>.
\<close>

definition health_attempt :: "HealthAttempt \<Rightarrow> bool \<times> nat" where
  "health_attempt a =
     (if latency a \<ge> 2000 then (False, 2000)
      else (case reply a of
              NoReply \<Rightarrow> (False, 2000)
            | ConnectionRefused \<Rightarrow> (False, latency a)
            | HttpStatus s json \<Rightarrow> (ok_status s \<and> json, latency a)))"

function pollLoop ::
  "(nat \<Rightarrow> HealthAttempt) \<Rightarrow> string \<Rightarrow> int \<Rightarrow> nat \<Rightarrow> Run \<Rightarrow> (SandboxError + unit) \<times> Run" where
  "pollLoop health healthUrl deadline i r =
     (if now r < deadline then
        (let r1 = step (Fetch healthUrl) (snd (health_attempt (health i))) r
         in if fst (health_attempt (health i)) then (Inr (), r1)
            else pollLoop health healthUrl deadline (Suc i) (elapse HEALTH_POLL_INTERVAL_MS r1))
      else (Inl HealthTimeout, r))"
  by pat_completeness auto
termination
  by (relation "measure (\<lambda>(health, healthUrl, deadline, i, r). nat (deadline - now r))")
     (auto simp add: step_def elapse_def HEALTH_POLL_INTERVAL_MS_def)

definition pollHealth ::
  "(nat \<Rightarrow> HealthAttempt) \<Rightarrow> string \<Rightarrow> nat \<Rightarrow> Run \<Rightarrow> (SandboxError + unit) \<times> Run" where
  "pollHealth health domainUrl timeoutMs r =
     pollLoop health (domainUrl @ ''/health'') (now r + int timeoutMs) 0 r"

subsection \<open>\<open>setupSandbox\<close>\<close>

record ProcessRequest =
  req_message :: string
  req_agentId :: string
  req_conversationId :: "string option"
  req_customerId :: "string option"
  req_customerEmail :: "string option"
  req_modality :: "string option"
  req_gatewayContext :: "string option"

text \<open>
  The five numbered steps of the source, in order. The host files are read first; each
  awaited call is recorded and advances the clock before its outcome is looked at.
\<close>

definition setupSandbox ::
  "World \<Rightarrow> ProcessRequest \<Rightarrow> Run \<Rightarrow> (SandboxError + Sandbox \<times> string) \<times> Run" where
  "setupSandbox w request r0 =
     (case loadAgentConfig (w_agentDirs w) (req_agentId request) of
        Inl e \<Rightarrow> (Inl e, r0)
      | Inr agentConfig \<Rightarrow>
     (case loadAgentBundle (w_bundle w) of
        Inl e \<Rightarrow> (Inl e, r0)
      | Inr agentBundle \<Rightarrow>
     (let snapshotId = getSnapshotId (w_snapshotFile w);
          r1 = elapse (w_loadTime w) r0;
          createStart = now r1;
          r2 = step (Create snapshotId) (snd (w_create w)) r1
      in case fst (w_create w) of
           Rejects e \<Rightarrow> (Inl (ProviderFailure e), r2)
         | Resolves sandbox \<Rightarrow>
     (let r3 = r2\<lparr>timing := (timing r2)\<lparr>sandboxCreate := now r2 - createStart\<rparr>\<rparr>;
          writeStart = now r3;
          files = buildSandboxFiles agentBundle agentConfig;
          r4 = step (WriteFiles (map fst files)) (snd (w_writeFiles w)) r3
      in case fst (w_writeFiles w) of
           Rejects e \<Rightarrow> (Inl (ProviderFailure e), r4)
         | Resolves u \<Rightarrow>
     (let r5 = r4\<lparr>timing := (timing r4)\<lparr>fileWrite := now r4 - writeStart\<rparr>\<rparr>;
          installed =
            (if snapshotId = None then
               (let r = step (RunCommand ''npm'' [''install'', ''--production''] False)
                          (snd (w_install w)) r5
                in case fst (w_install w) of
                     Rejects e \<Rightarrow> (Inl (ProviderFailure e), r)
                   | Resolves (exitCode, stderr) \<Rightarrow>
                       if exitCode \<noteq> 0 then (Inl (ProvisioningFailed stderr), r)
                       else (Inr (), r))
             else (Inr (), r5))
      in case installed of
           (Inl e, r6) \<Rightarrow> (Inl e, r6)
         | (Inr u, r6) \<Rightarrow>
     (let serverStart = now r6;
          r7 = step (RunCommand ''node'' [''server.mjs''] True) (snd (w_start w)) r6
      in case fst (w_start w) of
           Rejects e \<Rightarrow> (Inl (ProviderFailure e), r7)
         | Resolves u \<Rightarrow>
     (let r8 = r7\<lparr>timing := (timing r7)\<lparr>serverStart := now r7 - serverStart\<rparr>\<rparr>;
          healthStart = now r8;
          r9 = step (Domain AGENT_PORT) 0 r8;
          domainUrl = w_domain w
      in case pollHealth (w_health w) domainUrl HEALTH_POLL_TIMEOUT_MS r9 of
           (Inl e, r10) \<Rightarrow> (Inl e, r10)
         | (Inr u, r10) \<Rightarrow>
             (Inr (sandbox, domainUrl),
              r10\<lparr>timing := (timing r10)\<lparr>healthPoll := now r10 - healthStart\<rparr>\<rparr>))))))))"

subsection \<open>\<open>executeInSandbox\<close>\<close>

definition zero_timing :: ExecutionTiming where
  "zero_timing = \<lparr> sandboxCreate = 0, fileWrite = 0, serverStart = 0, healthPoll = 0,
                    agentProcess = 0, total = 0 \<rparr>"

definition start_run :: "int \<Rightarrow> Run" where
  "start_run t0 = \<lparr> now = t0, calls = [], timing = zero_timing \<rparr>"

text \<open>
  The \<open>try\<close> block gives the result, the value of the local \<open>sandbox\<close> when the block
  is left (it is assigned only after \<open>setupSandbox\<close> has returned) and the state; the
  \<open>finally\<close> block then stops the sandbox if the variable is set. A failing \<open>stop\<close> is
  caught and logged.
\<close>

definition executeInSandbox ::
  "World \<Rightarrow> ProcessRequest \<Rightarrow> int
     \<Rightarrow> (SandboxError + AgentProcessResponse \<times> ExecutionTiming) \<times> Run" where
  "executeInSandbox w request t0 =
     (let r0 = start_run t0;
          totalStart = now r0;
          tried =
            (case setupSandbox w request r0 of
               (Inl e, r) \<Rightarrow> (Inl e, None, r)
             | (Inr (sb, domainUrl), r) \<Rightarrow>
                 (let processStart = now r;
                      r1 = step (Fetch (domainUrl @ ''/process'')) (snd (w_process w)) r
                  in case fst (w_process w) of
                       Rejects e \<Rightarrow> (Inl (NetworkFailure e), Some sb, r1)
                     | Resolves res \<Rightarrow>
                         if \<not> ok_status (http_status res)
                         then (Inl (UpstreamError (http_status res) (http_text res)), Some sb, r1)
                         else (case http_json res of
                                 None \<Rightarrow> (Inl ReplyUnreadable, Some sb, r1)
                               | Some agentResponse \<Rightarrow>
                                   (let r2 = r1\<lparr>timing := (timing r1)
                                               \<lparr>agentProcess := now r1 - processStart\<rparr>\<rparr>;
                                        r3 = r2\<lparr>timing := (timing r2)
                                               \<lparr>total := now r2 - totalStart\<rparr>\<rparr>
                                    in (Inr (agentResponse, timing r3), Some sb, r3)))))
      in case tried of
           (result, None, r) \<Rightarrow> (result, r)
         | (result, Some sb, r) \<Rightarrow> (result, step (Stop sb) (snd (w_stop w)) r))"

subsection \<open>\<open>executeInSandboxStream\<close>\<close>

text \<open>
  No \<open>try\<close> here. On a reply that is not ok or has no body the sandbox is stopped before
  the error is thrown, and a rejecting \<open>stop\<close> is what the caller then sees. On success
  the caller gets the body stream and \<open>cleanup\<close>, a closure that stops the sandbox.
\<close>

definition cleanup :: "World \<Rightarrow> Sandbox \<Rightarrow> Run \<Rightarrow> Run" where
  "cleanup w sb r = step (Stop sb) (snd (w_stop w)) r"

definition executeInSandboxStream ::
  "World \<Rightarrow> ProcessRequest \<Rightarrow> int \<Rightarrow> (SandboxError + Upstream \<times> Sandbox) \<times> Run" where
  "executeInSandboxStream w request t0 =
     (case setupSandbox w request (start_run t0) of
        (Inl e, r) \<Rightarrow> (Inl e, r)
      | (Inr (sb, domainUrl), r) \<Rightarrow>
          (let r1 = step (Fetch (domainUrl @ ''/process/stream'')) (snd (w_stream w)) r
           in case fst (w_stream w) of
                Rejects e \<Rightarrow> (Inl (NetworkFailure e), r1)
              | Resolves res \<Rightarrow>
                  (case (if ok_status (sr_status res) then sr_body res else None) of
                     None \<Rightarrow>
                       (let r2 = step (Stop sb) (snd (w_stop w)) r1
                        in case fst (w_stop w) of
                             Rejects e \<Rightarrow> (Inl (ProviderFailure e), r2)
                           | Resolves u \<Rightarrow>
                               (Inl (UpstreamError (sr_status res) (sr_text res)), r2))
                   | Some body \<Rightarrow> (Inr (body, sb), r1))))"

section \<open>Gateway (orchestrator/server.ts)\<close>

text \<open>
  The body as \<open>c.req.json()\<close> returns it: nothing is checked, so every field may be
  missing. A body that is not JSON makes \<open>c.req.json()\<close> throw, and the JSON value
  \<open>null\<close> makes \<open>body.message\<close> throw; both end in the \<open>catch\<close> block and are \<open>None\<close>
  below.
\<close>

record RequestBody =
  body_message :: "string option"
  body_agentId :: "string option"
  body_conversationId :: "string option"
  body_customerId :: "string option"
  body_customerEmail :: "string option"
  body_modality :: "string option"
  body_gatewayContext :: "string option"

definition to_request :: "string \<Rightarrow> string \<Rightarrow> RequestBody \<Rightarrow> ProcessRequest" where
  "to_request message agentId body =
     \<lparr> req_message = message, req_agentId = agentId,
       req_conversationId = body_conversationId body,
       req_customerId = body_customerId body,
       req_customerEmail = body_customerEmail body,
       req_modality = body_modality body,
       req_gatewayContext = body_gatewayContext body \<rparr>"

text \<open>
  The responses of the gateway. A 500 carries the message of the error that was caught;
  the error itself stands for its message here. The streamed response is built with
  status 200; what is kept of it is the list of chunks that reach the caller.
\<close>

datatype GatewayError = BodyUnreadable | Failed SandboxError

datatype GatewayResponse =
    BadRequest string                                   \<comment> \<open>400, \<open>{error}\<close>\<close>
  | ServerError GatewayError "int option"               \<comment> \<open>500, \<open>{error, duration?}\<close>\<close>
  | ProcessJson AgentProcessResponse ExecutionTiming int \<comment> \<open>200, reply, timing, duration\<close>
  | EventStream "string list"                           \<comment> \<open>the stream, as the caller gets it\<close>


definition validate :: "RequestBody \<Rightarrow> string + ProcessRequest" where
  "validate body =
     (case body_message body of
        None \<Rightarrow> Inl ''message is required''
      | Some m \<Rightarrow>
          if m = [] then Inl ''message is required''
          else (case body_agentId body of
                  None \<Rightarrow> Inl ''agentId is required''
                | Some a \<Rightarrow>
                    if a = [] then Inl ''agentId is required''
                    else Inr (to_request m a body)))"


subsection \<open>Web streams, as far as the streaming handlers use them\<close>

text \<open>
  A \<open>ReadableStream\<close> is an object on the heap: the chunks it still holds, whether it
  errors after them instead of closing, and whether a reader has locked it. A stream has
  at most one reader: \<open>getReader\<close> throws on a locked stream, and \<open>pipeTo\<close> takes the
  reader of its source when it is called.
\<close>

record ReadableStream =
  rs_chunks :: "string list"
  rs_errors :: bool
  rs_locked :: bool

type_synonym Heap = "nat \<rightharpoonup> ReadableStream"

text \<open>\<open>new WritableStream()\<close> drops what it is given; the other sink feeds a readable side.\<close>

datatype Sink = NullSink | TransformWritable nat

definition getReader :: "nat \<Rightarrow> Heap \<Rightarrow> Heap option" where
  "getReader ref h =
     (case h ref of
        None \<Rightarrow> None
      | Some s \<Rightarrow> if rs_locked s then None else Some (h(ref \<mapsto> s\<lparr>rs_locked := True\<rparr>)))"

text \<open>The synchronous part of \<open>pipeTo\<close>: lock the source (a locked source is left alone).\<close>

definition pipeTo :: "nat \<Rightarrow> Heap \<Rightarrow> Heap" where
  "pipeTo src h = (case getReader src h of None \<Rightarrow> h | Some h1 \<Rightarrow> h1)"

text \<open>The pipe at work: every chunk of the source goes to the sink.\<close>

definition run_pipe :: "nat \<Rightarrow> Sink \<Rightarrow> Heap \<Rightarrow> Heap" where
  "run_pipe src sink h =
     (case h src of
        None \<Rightarrow> h
      | Some s \<Rightarrow>
          (let h1 = h(src \<mapsto> s\<lparr>rs_chunks := []\<rparr>)
           in case sink of
                NullSink \<Rightarrow> h1
              | TransformWritable ref \<Rightarrow>
                  (case h1 ref of
                     None \<Rightarrow> h1
                   | Some t \<Rightarrow>
                       h1(ref \<mapsto> t\<lparr>rs_chunks := rs_chunks t @ rs_chunks s,
                                     rs_errors := rs_errors s\<rparr>))))"

text \<open>
  The HTTP server writing a \<open>Response\<close> body to the caller: it needs the reader of the
  body stream, and passes on the chunks until the caller disconnects (after \<open>k\<close> chunks
  for \<open>Some k\<close>, never for \<open>None\<close>). Without the reader the caller gets no chunk.
\<close>

definition send_body :: "bool \<Rightarrow> nat \<Rightarrow> nat option \<Rightarrow> Heap \<Rightarrow> string list" where
  "send_body has_reader body caller h =
     (if has_reader
      then (case h body of
              None \<Rightarrow> []
            | Some s \<Rightarrow> (case caller of None \<Rightarrow> rs_chunks s | Some k \<Rightarrow> take k (rs_chunks s)))
      else [])"

definition upstream_heap :: "Upstream \<Rightarrow> Heap" where
  "upstream_heap up =
     [0 \<mapsto> \<lparr> rs_chunks = up_chunks up, rs_errors = up_aborts up, rs_locked = False \<rparr>]"

text \<open>
  server.ts: the response body is the upstream stream itself, and the same stream is
  piped to a fresh \<open>WritableStream\<close> before the handler returns.
\<close>

definition relay_direct :: "Upstream \<Rightarrow> nat option \<Rightarrow> string list" where
  "relay_direct up caller =
     (let h0 = upstream_heap up;
          body = 0;
          h1 = pipeTo 0 h0;
          reader = getReader body h1;
          h2 = run_pipe 0 NullSink (case reader of None \<Rightarrow> h1 | Some h \<Rightarrow> h)
      in send_body (reader \<noteq> None) body caller h2)"

text \<open>
  The other variant: a \<open>TransformStream\<close> is created, the upstream is piped to its
  writable side, and the response body is its readable side.
\<close>

definition relay_transform :: "Upstream \<Rightarrow> nat option \<Rightarrow> string list" where
  "relay_transform up caller =
     (let h0 = (upstream_heap up)(1 \<mapsto> \<lparr> rs_chunks = [], rs_errors = False, rs_locked = False \<rparr>);
          body = 1;
          h1 = pipeTo 0 h0;
          reader = getReader body h1;
          h2 = run_pipe 0 (TransformWritable 1) (case reader of None \<Rightarrow> h1 | Some h \<Rightarrow> h)
      in send_body (reader \<noteq> None) body caller h2)"

text \<open>
  \<open>POST /process/stream\<close>, in both variants. \<open>pipeTo(...).catch(() => {}).finally(() =>
  cleanup())\<close> runs \<open>cleanup\<close> when the pipe has settled, however it settles.
\<close>

definition post_process_stream ::
  "World \<Rightarrow> RequestBody option \<Rightarrow> nat option \<Rightarrow> int \<Rightarrow> GatewayResponse \<times> Run" where
  "post_process_stream w parsed caller t0 =
     (case parsed of
        None \<Rightarrow> (ServerError BodyUnreadable None, start_run t0)
      | Some body \<Rightarrow>
          (case validate body of
             Inl e \<Rightarrow> (BadRequest e, start_run t0)
           | Inr request \<Rightarrow>
               (case executeInSandboxStream w request t0 of
                  (Inl e, r) \<Rightarrow> (ServerError (Failed e) None, r)
                | (Inr (stream, sb), r) \<Rightarrow>
                    (EventStream (relay_direct stream caller), cleanup w sb r))))"

definition post_process_stream_transform ::
  "World \<Rightarrow> RequestBody option \<Rightarrow> nat option \<Rightarrow> int \<Rightarrow> GatewayResponse \<times> Run" where
  "post_process_stream_transform w parsed caller t0 =
     (case parsed of
        None \<Rightarrow> (ServerError BodyUnreadable None, start_run t0)
      | Some body \<Rightarrow>
          (case validate body of
             Inl e \<Rightarrow> (BadRequest e, start_run t0)
           | Inr request \<Rightarrow>
               (case executeInSandboxStream w request t0 of
                  (Inl e, r) \<Rightarrow> (ServerError (Failed e) None, r)
                | (Inr (stream, sb), r) \<Rightarrow>
                    (EventStream (relay_transform stream caller), cleanup w sb r))))"

section \<open>Notions used to state the properties\<close>

subsection \<open>Agent runtime\<close>

text \<open>
  The session id a turn leaves behind: that of the last \<open>system\<close>/\<open>init\<close> message of its
  stream that carries a non-empty one.
\<close>

fun captured_token :: "SdkMessage list \<Rightarrow> string option" where
  "captured_token [] = None"
| "captured_token (m # ms) =
     (case captured_token ms of
        Some t \<Rightarrow> Some t
      | None \<Rightarrow>
          (case m of
             SystemMessage subtype (Some sid) \<Rightarrow>
               if subtype = ''init'' \<and> sid \<noteq> [] then Some sid else None
           | _ \<Rightarrow> None))"

fun is_success_result :: "SdkMessage \<Rightarrow> bool" where
  "is_success_result (ResultMessage subtype e u c so) = (subtype = ''success'')"
| "is_success_result m = False"

fun has_structured_output :: "SdkMessage \<Rightarrow> bool" where
  "has_structured_output (ResultMessage subtype e u c so) = (so \<noteq> None)"
| "has_structured_output m = False"

text \<open>The names of the \<open>tool_use\<close> blocks of the assistant messages, in order.\<close>

fun used_tools :: "SdkMessage list \<Rightarrow> string list" where
  "used_tools [] = []"
| "used_tools (AssistantMessage content # ms) = tool_names content @ used_tools ms"
| "used_tools (m # ms) = used_tools ms"

subsection \<open>Health polling\<close>

text \<open>
  An attempt lets \<open>pollHealth\<close> return when the reply arrives within the two seconds of
  the abort signal, has a 2xx status and a body that parses as JSON.
\<close>

definition healthy :: "HealthAttempt \<Rightarrow> bool" where
  "healthy a =
     (latency a < 2000
      \<and> (case reply a of HttpStatus s json \<Rightarrow> ok_status s \<and> json | _ \<Rightarrow> False))"

text \<open>
  When attempt \<open>i\<close> starts if all attempts before it have failed: each failed attempt is
  followed by the sleep of \<open>HEALTH_POLL_INTERVAL_MS\<close>.
\<close>

fun attempt_start :: "(nat \<Rightarrow> HealthAttempt) \<Rightarrow> int \<Rightarrow> nat \<Rightarrow> int" where
  "attempt_start health t0 0 = t0"
| "attempt_start health t0 (Suc i) =
     attempt_start health t0 i + int (snd (health_attempt (health i)))
       + int HEALTH_POLL_INTERVAL_MS"

subsection \<open>Calls\<close>

fun is_stop :: "NetCall \<Rightarrow> bool" where
  "is_stop (Stop sb) = True"
| "is_stop c = False"

definition stop_count :: "NetCall list \<Rightarrow> nat" where
  "stop_count cs = length (filter is_stop cs)"

text \<open>The configuration bundle of an agent is missing: the directory or one of its two files.\<close>

definition config_missing :: "(string \<Rightarrow> AgentDir option) \<Rightarrow> string \<Rightarrow> bool" where
  "config_missing dirs agentId =
     (case dirs agentId of
        None \<Rightarrow> True
      | Some d \<Rightarrow> dir_claudeMd d = None \<or> dir_agentConfig d = None)"

section \<open>Concrete inputs\<close>

subsection \<open>A host with the agent \<open>sample\<close> and a provider that works\<close>

definition sample_dir :: AgentDir where
  "sample_dir = \<lparr> dir_claudeMd = Some ''# Customer Support Agent'',
                   dir_agentConfig = Some (Parsed ''{}''),
                   dir_skills = None \<rparr>"

definition sample_request :: ProcessRequest where
  "sample_request = \<lparr> req_message = ''How do I reset my password?'', req_agentId = ''sample'',
                       req_conversationId = None, req_customerId = None,
                       req_customerEmail = None, req_modality = None,
                       req_gatewayContext = None \<rparr>"

definition sample_reply :: AgentProcessResponse where
  "sample_reply = \<lparr> apr_requestId = ''r-1'', apr_response = ''Open Settings.'',
                     apr_guidesUsed = None, apr_confidence = Some ''high'', apr_duration = 4200,
                     apr_metadata = None, apr_error = None \<rparr>"

definition sample_upstream :: Upstream where
  "sample_upstream = \<lparr> up_chunks = [''event: start'', ''event: done''], up_aborts = False \<rparr>"

text \<open>The first \<open>n\<close> attempts are refused after \<open>d\<close> ms; later ones get a healthy reply.\<close>

definition ready_after :: "nat \<Rightarrow> nat \<Rightarrow> nat \<Rightarrow> HealthAttempt" where
  "ready_after n d i =
     (if i < n then \<lparr> reply = ConnectionRefused, latency = d \<rparr>
      else \<lparr> reply = HttpStatus 200 True, latency = 30 \<rparr>)"

definition good_world :: World where
  "good_world =
     \<lparr> w_agentDirs = (\<lambda>a. if a = ''sample'' then Some sample_dir else None),
       w_bundle = Some ''// agent bundle'',
       w_snapshotFile = Some ''snap_1'',
       w_loadTime = 3,
       w_create = (Resolves (Sandbox ''sbx_1''), 800),
       w_writeFiles = (Resolves (), 120),
       w_install = (Resolves (0, []), 20000),
       w_start = (Resolves (), 40),
       w_domain = ''https://sbx-1.example'',
       w_health = ready_after 3 10,
       w_process = (Resolves \<lparr> http_status = 200, http_text = [],
                                http_json = Some sample_reply \<rparr>, 5000),
       w_stream = (Resolves \<lparr> sr_status = 200, sr_text = [],
                               sr_body = Some sample_upstream \<rparr>, 50),
       w_stop = (Resolves (), 100) \<rparr>"

text \<open>The same, but the provider rejects \<open>writeFiles\<close>.\<close>

definition write_fails_world :: World where
  "write_fails_world = good_world\<lparr>w_writeFiles := (Rejects ''write failed'', 120)\<rparr>"

text \<open>The same, but there is no snapshot, so the dependencies are installed (20 s).\<close>

definition no_snapshot_world :: World where
  "no_snapshot_world = good_world\<lparr>w_snapshotFile := None\<rparr>"

definition sample_body :: RequestBody where
  "sample_body = \<lparr> body_message = Some ''How do I reset my password?'',
                    body_agentId = Some ''sample'',
                    body_conversationId = None, body_customerId = None,
                    body_customerEmail = None, body_modality = None,
                    body_gatewayContext = None \<rparr>"


subsection \<open>Health endpoints\<close>


text \<open>Answers 200 at once, with a body that is not JSON, every time.\<close>

definition plain_ok :: "nat \<Rightarrow> HealthAttempt" where
  "plain_ok i = \<lparr> reply = HttpStatus 200 False, latency = 0 \<rparr>"

text \<open>Refuses the connection at once, every time.\<close>

definition refusing :: "nat \<Rightarrow> HealthAttempt" where
  "refusing i = \<lparr> reply = ConnectionRefused, latency = 0 \<rparr>"


subsection \<open>Agent configurations and turns\<close>

definition both_lists_override :: ModalityRuntimeSettings where
  "both_lists_override =
     \<lparr> mrs_maxThinkingTokens = None, mrs_maxTurns = None,
       mrs_toolSettings =
         Some \<lparr> ts_allowedTools = Some [''Read'', ''Bash''],
                ts_disabledTools = Some [''Bash''] \<rparr>,
       mrs_mcpSettings =
         Some \<lparr> ms_enabledServers = Some [''crm'', ''billing''],
                ms_disabledServers = Some [''billing''] \<rparr> \<rparr>"

definition both_lists_config :: AgentConfig where
  "both_lists_config =
     \<lparr> cfg_allowedTools = [''Read'', ''Glob'', ''Grep''],
       cfg_mcpServers = [(''crm'', McpServerConfig ''npx crm''),
                         (''kb'', McpServerConfig ''npx kb'')],
       cfg_additionalInstructions = [],
       cfg_maxTurns = 20,
       cfg_modalitySettings =
         Some \<lparr> mod_chat = Some both_lists_override, mod_email = None, mod_voice = None \<rparr> \<rparr>"

definition default_config :: AgentConfig where
  "default_config =
     \<lparr> cfg_allowedTools = [''Read'', ''Glob'', ''Grep''], cfg_mcpServers = [],
       cfg_additionalInstructions = [], cfg_maxTurns = 20, cfg_modalitySettings = None \<rparr>"

definition turn_of :: "string \<Rightarrow> string \<Rightarrow> ProcessMessageInput" where
  "turn_of conversationId message =
     \<lparr> in_message = message, in_conversationId = Some conversationId,
       in_customerId = None, in_metadata = None, in_requestId = ''req'' \<rparr>"

text \<open>An SDK that opens session \<open>sess-1\<close> and ends with a success result without output.\<close>

definition first_sdk :: "QueryOptions \<Rightarrow> SdkStream" where
  "first_sdk options =
     \<lparr> sdk_messages =
         [SystemMessage ''init'' (Some ''sess-1''),
          AssistantMessage [TextBlock ''Looking it up'', ToolUseBlock ''t1'' ''Read''],
          ResultMessage ''success'' False None None None],
       sdk_failure = None \<rparr>"

section \<open>Lemmas\<close>

subsection \<open>The loop of \<open>processMessage\<close>\<close>

text \<open>
  The loop is a left fold of \<open>on_message\<close>; each lemma says what one component of the
  state is after the fold.
\<close>

lemma sessions_foldl:
  "ls_sessions (foldl (on_message cid) s msgs) =
     (case cid of
        None \<Rightarrow> ls_sessions s
      | Some c \<Rightarrow>
          if c = [] then ls_sessions s
          else (case captured_token msgs of
                  None \<Rightarrow> ls_sessions s
                | Some t \<Rightarrow> (ls_sessions s)(c \<mapsto> t)))"
proof (induction msgs arbitrary: s)
  case Nil
  then show ?case by (simp split: option.splits)
next
  case (Cons m ms)
  show ?case
  proof (cases m)
    case (SystemMessage subtype sid)
    then show ?thesis
      by (auto simp add: Cons.IH split: option.splits)
  qed (simp_all add: Cons.IH Let_def split: option.splits)
qed

lemma tools_foldl:
  "ls_toolsUsed (foldl (on_message cid) s msgs) = ls_toolsUsed s @ used_tools msgs"
proof (induction msgs arbitrary: s)
  case Nil
  then show ?case by simp
next
  case (Cons m ms)
  show ?case
    by (cases m) (simp_all add: Cons.IH Let_def split: option.splits)
qed

lemma metadata_foldl:
  "\<forall>m \<in> set msgs. is_success_result m \<longrightarrow> \<not> has_structured_output m \<Longrightarrow>
   ls_structuredMetadata (foldl (on_message cid) s msgs) = ls_structuredMetadata s"
proof (induction msgs arbitrary: s)
  case Nil
  then show ?case by simp
next
  case (Cons m ms)
  then show ?case
    by (cases m) (simp_all add: Let_def split: option.splits)
qed

lemma response_foldl:
  "\<forall>m \<in> set msgs. is_success_result m \<longrightarrow> \<not> has_structured_output m \<Longrightarrow>
   ls_responseText (foldl (on_message cid) s msgs) =
     (if \<exists>m \<in> set msgs. is_success_result m then no_output_text else ls_responseText s)"
proof (induction msgs arbitrary: s)
  case Nil
  then show ?case by simp
next
  case (Cons m ms)
  then show ?case
    by (cases m) (simp_all add: Let_def split: option.splits)
qed

lemma used_tools_empty:
  "(used_tools msgs \<noteq> []) =
     (\<exists>content i n. AssistantMessage content \<in> set msgs \<and> ToolUseBlock i n \<in> set content)"
proof (induction msgs rule: used_tools.induct)
  case 1
  then show ?case by simp
next
  case (2 content ms)
  have "(tool_names content \<noteq> []) = (\<exists>i n. ToolUseBlock i n \<in> set content)"
    by (induction content rule: tool_names.induct) auto
  with 2 show ?case by auto
qed auto

lemma resume_query_options:
  "q_resume (query_options config sessions input) =
     (case in_conversationId input of
        None \<Rightarrow> None
      | Some c \<Rightarrow> if c = [] then None
                  else if truthy (sessions c) then sessions c else None)"
  by (simp add: query_options_def Let_def split: option.splits)

lemma to_query_processMessage:
  "to_query (processMessage config sessions input sdk) = query_options config sessions input"
  by (simp add: processMessage_def Let_def)

lemma to_sessions_processMessage:
  "to_sessions (processMessage config sessions input sdk) =
     (case in_conversationId input of
        None \<Rightarrow> sessions
      | Some c \<Rightarrow>
          if c = [] then sessions
          else (case captured_token (sdk_messages (sdk (query_options config sessions input))) of
                  None \<Rightarrow> sessions
                | Some t \<Rightarrow> sessions(c \<mapsto> t)))"
  by (simp add: processMessage_def Let_def sessions_foldl split: option.splits)

lemma captured_token_nonempty: "captured_token msgs = Some t \<Longrightarrow> t \<noteq> []"
  by (induction msgs) (auto split: option.splits SdkMessage.splits if_splits)

subsection \<open>The loop of \<open>pollHealth\<close>\<close>

text \<open>
  Facts about \<open>pollLoop\<close>, by induction along its own recursion. The loop is entered at
  attempt \<open>i\<close> with the clock at \<open>attempt_start health t0 i\<close>.
\<close>

lemma health_attempt_healthy: "fst (health_attempt a) = healthy a"
  by (simp add: health_attempt_def healthy_def split: HealthReply.splits)


lemma attempt_start_mono: "i \<le> k \<Longrightarrow> attempt_start health t0 i \<le> attempt_start health t0 k"
proof (induction k)
  case 0
  then show ?case by simp
next
  case (Suc k)
  then show ?case by (cases "i = Suc k") auto
qed


lemma pollLoop_error: "fst (pollLoop health url deadline i r) = Inl e \<Longrightarrow> e = HealthTimeout"
proof (induction health url deadline i r rule: pollLoop.induct)
  case (1 health url deadline i r)
  then show ?case
    by (simp add: Let_def split: if_splits)
qed

lemma pollLoop_timeout_iff:
  "now r = attempt_start health t0 i \<Longrightarrow>
   (fst (pollLoop health url deadline i r) = Inl HealthTimeout)
     = (\<forall>k\<ge>i. attempt_start health t0 k < deadline \<longrightarrow> \<not> healthy (health k))"
proof (induction health url deadline i r rule: pollLoop.induct)
  case (1 health url deadline i r)
  show ?case
  proof (cases "now r < deadline")
    case False
    have "\<And>k. i \<le> k \<Longrightarrow> \<not> attempt_start health t0 k < deadline"
      using attempt_start_mono [of i _ health t0] False "1.prems" by force
    with False show ?thesis by simp
  next
    case True
    show ?thesis
    proof (cases "healthy (health i)")
      case h: True
      with True "1.prems" show ?thesis
        by (auto simp add: Let_def health_attempt_healthy)
    next
      case h: False
      let ?r1 = "step (Fetch url) (snd (health_attempt (health i))) r"
      have n: "now (elapse HEALTH_POLL_INTERVAL_MS ?r1) = attempt_start health t0 (Suc i)"
        using "1.prems" by (simp add: step_def elapse_def)
      have ih: "(fst (pollLoop health url deadline (Suc i) (elapse HEALTH_POLL_INTERVAL_MS ?r1)) = Inl HealthTimeout)
          = (\<forall>k\<ge>Suc i. attempt_start health t0 k < deadline \<longrightarrow> \<not> healthy (health k))"
        using "1.IH" [OF True refl _ n] h by (simp add: health_attempt_healthy)
      have "(\<forall>k\<ge>i. attempt_start health t0 k < deadline \<longrightarrow> \<not> healthy (health k))
          = (\<forall>k\<ge>Suc i. attempt_start health t0 k < deadline \<longrightarrow> \<not> healthy (health k))"
        using h by (metis Suc_leD Suc_leI le_neq_implies_less)
      with ih True h show ?thesis
        by (simp add: Let_def health_attempt_healthy)
    qed
  qed
qed


lemma pollLoop_success:
  assumes "now r = attempt_start health t0 i"
    and "pollLoop health url deadline i r = (Inr u, r')"
  shows "\<exists>k\<ge>i. healthy (health k) \<and> (\<forall>j. i \<le> j \<and> j < k \<longrightarrow> \<not> healthy (health j))
           \<and> attempt_start health t0 k < deadline
           \<and> now r' = attempt_start health t0 k + int (snd (health_attempt (health k)))
           \<and> calls r' = calls r @ replicate (Suc k - i) (Fetch url)"
  using assms
proof (induction health url deadline i r rule: pollLoop.induct)
  case (1 health url deadline i r)
  have lt: "now r < deadline"
    using "1.prems"(2) by (auto split: if_splits)
  let ?r1 = "step (Fetch url) (snd (health_attempt (health i))) r"
  show ?case
  proof (cases "healthy (health i)")
    case True
    with lt "1.prems" have "r' = ?r1"
      by (simp add: Let_def health_attempt_healthy)
    then have "now r' = attempt_start health t0 i + int (snd (health_attempt (health i)))"
        and "calls r' = calls r @ replicate (Suc i - i) (Fetch url)"
      using "1.prems"(1) by (simp_all add: step_def)
    with True lt "1.prems"(1) show ?thesis
      by (intro exI [of _ i]) auto
  next
    case False
    have n: "now (elapse HEALTH_POLL_INTERVAL_MS ?r1) = attempt_start health t0 (Suc i)"
      using "1.prems"(1) by (simp add: step_def elapse_def)
    have rec: "pollLoop health url deadline (Suc i) (elapse HEALTH_POLL_INTERVAL_MS ?r1) = (Inr u, r')"
      using lt False "1.prems"(2) by (simp add: Let_def health_attempt_healthy)
    from "1.IH" [OF lt refl _ n rec] False
    obtain k where k: "Suc i \<le> k" "healthy (health k)"
        "\<forall>j. Suc i \<le> j \<and> j < k \<longrightarrow> \<not> healthy (health j)"
        "attempt_start health t0 k < deadline"
        "now r' = attempt_start health t0 k + int (snd (health_attempt (health k)))"
        "calls r' = calls (elapse HEALTH_POLL_INTERVAL_MS ?r1) @ replicate (Suc k - Suc i) (Fetch url)"
      by (auto simp add: health_attempt_healthy)
    have a: "\<forall>j. i \<le> j \<and> j < k \<longrightarrow> \<not> healthy (health j)"
      using k(3) False by (metis Suc_leI le_neq_implies_less)
    have "Suc k - i = Suc (Suc k - Suc i)"
      using k(1) by simp
    then have "calls r' = calls r @ replicate (Suc k - i) (Fetch url)"
      using k(6) by (simp add: step_def elapse_def)
    with k a show ?thesis
      by (intro exI [of _ k]) auto
  qed
qed


lemma pollLoop_frame:
  "pollLoop health url deadline i r = (res, r') \<Longrightarrow>
     timing r' = timing r \<and> now r \<le> now r'
     \<and> (\<exists>n. calls r' = calls r @ replicate n (Fetch url))"
proof (induction health url deadline i r rule: pollLoop.induct)
  case (1 health url deadline i r)
  show ?case
  proof (cases "now r < deadline")
    case False
    with "1.prems" show ?thesis by auto
  next
    case True
    let ?r1 = "step (Fetch url) (snd (health_attempt (health i))) r"
    show ?thesis
    proof (cases "fst (health_attempt (health i))")
      case h: True
      with True "1.prems" have "r' = ?r1" by (simp add: Let_def)
      then show ?thesis
        by (auto simp add: step_def intro: exI [of _ 1])
    next
      case h: False
      have rec: "pollLoop health url deadline (Suc i) (elapse HEALTH_POLL_INTERVAL_MS ?r1) = (res, r')"
        using True h "1.prems" by (simp add: Let_def)
      from "1.IH" [OF True refl h rec]
      obtain n where "timing r' = timing r" "now r \<le> now r'"
          "calls r' = calls r @ Fetch url # replicate n (Fetch url)"
        by (auto simp add: step_def elapse_def)
      then show ?thesis
        by (auto intro: exI [of _ "Suc n"])
    qed
  qed
qed

lemma pollHealth_timeout_iff:
  "(fst (pollHealth health url timeoutMs r) = Inl HealthTimeout)
     = (\<forall>k. attempt_start health (now r) k < now r + int timeoutMs \<longrightarrow> \<not> healthy (health k))"
  using pollLoop_timeout_iff [of r health "now r" 0 "url @ ''/health''" "now r + int timeoutMs"]
  by (simp add: pollHealth_def)




subsection \<open>What \<open>setupSandbox\<close> and \<open>executeInSandbox\<close> leave behind\<close>

text \<open>
  Polling and \<open>setupSandbox\<close> never stop a sandbox and never touch the fields of the
  timing record that belong to \<open>executeInSandbox\<close>. \<open>executeInSandbox\<close> stops the sandbox
  once if \<open>setupSandbox\<close> has returned, and not at all if it has thrown.
\<close>

lemma pollHealth_frame:
  "pollHealth health url t r = (res, r') \<Longrightarrow>
     timing r' = timing r \<and> now r \<le> now r'
     \<and> (\<exists>n. calls r' = calls r @ replicate n (Fetch (url @ ''/health'')))"
  unfolding pollHealth_def by (rule pollLoop_frame)

lemma pollHealth_stops:
  "pollHealth health url t r = (res, r') \<Longrightarrow> stop_count (calls r') = stop_count (calls r)"
  by (drule pollHealth_frame) (auto simp add: stop_count_def)

lemma setupSandbox_stops:
  "setupSandbox w req r0 = (res, r) \<Longrightarrow> stop_count (calls r) = stop_count (calls r0)"
  by (auto simp add: setupSandbox_def Let_def step_def elapse_def stop_count_def
      split: sum.splits Outcome.splits prod.splits if_splits
      dest!: pollHealth_stops)

lemma setupSandbox_timing:
  "setupSandbox w req r0 = (Inr x, r) \<Longrightarrow>
     sandboxCreate (timing r) = int (snd (w_create w))
     \<and> fileWrite (timing r) = int (snd (w_writeFiles w))
     \<and> serverStart (timing r) = int (snd (w_start w))
     \<and> 0 \<le> healthPoll (timing r)
     \<and> agentProcess (timing r) = agentProcess (timing r0)
     \<and> total (timing r) = total (timing r0)
     \<and> now r = now r0 + int (w_loadTime w) + int (snd (w_create w)) + int (snd (w_writeFiles w))
           + (if getSnapshotId (w_snapshotFile w) = None then int (snd (w_install w)) else 0)
           + int (snd (w_start w)) + healthPoll (timing r)"
  by (auto simp add: setupSandbox_def Let_def step_def elapse_def
      split: sum.splits Outcome.splits prod.splits if_splits
      dest!: pollHealth_frame)

lemma executeInSandbox_stops:
  "stop_count (calls (snd (executeInSandbox w req t0))) =
     (case fst (setupSandbox w req (start_run t0)) of Inl e \<Rightarrow> 0 | Inr x \<Rightarrow> 1)"
proof (cases "setupSandbox w req (start_run t0)")
  case (Pair res r)
  then have s: "stop_count (calls r) = 0"
    using setupSandbox_stops [of w req "start_run t0" res r]
    by (simp add: start_run_def stop_count_def)
  show ?thesis
  proof (cases res)
    case (Inl e)
    with Pair s show ?thesis
      by (simp add: executeInSandbox_def Let_def)
  next
    case (Inr x)
    with Pair s show ?thesis
      by (auto simp add: executeInSandbox_def Let_def step_def stop_count_def
          split: prod.splits Outcome.splits option.splits)
  qed
qed

lemma loadAgentConfig_missing:
  "config_missing dirs agentId \<Longrightarrow>
     \<exists>part. loadAgentConfig dirs agentId = Inl (ConfigNotFound part agentId)"
  by (auto simp add: config_missing_def loadAgentConfig_def split: option.splits)

subsection \<open>The two relays\<close>

text \<open>
  In the direct variant the stream is locked by the pipe when the server asks for its
  reader; in the other variant the server reads the readable side, which nobody else holds.
\<close>

lemma relay_direct_nothing: "relay_direct up caller = []"
  by (simp add: relay_direct_def pipeTo_def getReader_def upstream_heap_def send_body_def Let_def)

lemma relay_transform_all:
  "relay_transform up caller =
     (case caller of None \<Rightarrow> up_chunks up | Some k \<Rightarrow> take k (up_chunks up))"
  by (simp add: relay_transform_def pipeTo_def getReader_def upstream_heap_def send_body_def
      run_pipe_def Let_def split: option.splits)

subsection \<open>The concrete inputs, evaluated\<close>

lemma start_run_simps:
  "now (start_run t0) = t0" "calls (start_run t0) = []" "timing (start_run t0) = zero_timing"
  by (simp_all add: start_run_def)

lemma setup_write_fails:
  "setupSandbox write_fails_world sample_request (start_run 0) =
     (Inl (ProviderFailure ''write failed''),
      \<lparr> now = 923,
        calls = [Create (Some ''snap_1''),
                 WriteFiles [''server.mjs'', ''CLAUDE.md'', ''agent-config.json'', ''package.json'']],
        timing = zero_timing\<lparr>sandboxCreate := 800\<rparr> \<rparr>)"
  by (simp add: setupSandbox_def write_fails_world_def good_world_def sample_request_def
      sample_dir_def loadAgentConfig_def loadAgentBundle_def getSnapshotId_def trim_def
      is_space_def buildSandboxFiles_def start_run_def step_def elapse_def Let_def)

lemma poll_good_world:
  "pollHealth (ready_after 3 10) url HEALTH_POLL_TIMEOUT_MS r =
     (Inr (), r\<lparr>now := now r + 1560,
               calls := calls r @ [Fetch (url @ ''/health''), Fetch (url @ ''/health''),
                                   Fetch (url @ ''/health''), Fetch (url @ ''/health'')]\<rparr>)"
  by (simp add: pollHealth_def pollLoop.simps [of "ready_after 3 10"] ready_after_def
      health_attempt_def ok_status_def step_def elapse_def HEALTH_POLL_TIMEOUT_MS_def
      HEALTH_POLL_INTERVAL_MS_def Let_def)

lemma setup_good_world:
  "setupSandbox good_world sample_request (start_run 0) =
     (Inr (Sandbox ''sbx_1'', ''https://sbx-1.example''),
      \<lparr> now = 2523,
        calls = [Create (Some ''snap_1''),
                 WriteFiles [''server.mjs'', ''CLAUDE.md'', ''agent-config.json'', ''package.json''],
                 RunCommand ''node'' [''server.mjs''] True,
                 Domain 3000,
                 Fetch ''https://sbx-1.example/health'', Fetch ''https://sbx-1.example/health'',
                 Fetch ''https://sbx-1.example/health'', Fetch ''https://sbx-1.example/health''],
        timing = \<lparr> sandboxCreate = 800, fileWrite = 120, serverStart = 40, healthPoll = 1560,
                   agentProcess = 0, total = 0 \<rparr> \<rparr>)"
  by (simp add: setupSandbox_def good_world_def sample_request_def
      sample_dir_def loadAgentConfig_def loadAgentBundle_def getSnapshotId_def trim_def
      is_space_def buildSandboxFiles_def start_run_def step_def elapse_def Let_def
      poll_good_world AGENT_PORT_def zero_timing_def)

lemma setup_no_snapshot_world:
  "setupSandbox no_snapshot_world sample_request (start_run 0) =
     (Inr (Sandbox ''sbx_1'', ''https://sbx-1.example''),
      \<lparr> now = 22523,
        calls = [Create None,
                 WriteFiles [''server.mjs'', ''CLAUDE.md'', ''agent-config.json'', ''package.json''],
                 RunCommand ''npm'' [''install'', ''--production''] False,
                 RunCommand ''node'' [''server.mjs''] True,
                 Domain 3000,
                 Fetch ''https://sbx-1.example/health'', Fetch ''https://sbx-1.example/health'',
                 Fetch ''https://sbx-1.example/health'', Fetch ''https://sbx-1.example/health''],
        timing = \<lparr> sandboxCreate = 800, fileWrite = 120, serverStart = 40, healthPoll = 1560,
                   agentProcess = 0, total = 0 \<rparr> \<rparr>)"
  by (simp add: setupSandbox_def no_snapshot_world_def good_world_def sample_request_def
      sample_dir_def loadAgentConfig_def loadAgentBundle_def getSnapshotId_def
      buildSandboxFiles_def start_run_def step_def elapse_def Let_def
      poll_good_world AGENT_PORT_def zero_timing_def)

lemma validate_sample_body: "validate sample_body = Inr sample_request"
  by (simp add: validate_def sample_body_def sample_request_def to_request_def)

lemma exec_good_world:
  "fst (executeInSandbox good_world sample_request 0) =
     Inr (sample_reply,
          \<lparr> sandboxCreate = 800, fileWrite = 120, serverStart = 40, healthPoll = 1560,
            agentProcess = 5000, total = 7523 \<rparr>)"
  by (simp add: executeInSandbox_def setup_good_world Let_def start_run_simps)
     (simp add: good_world_def ok_status_def step_def start_run_simps)

section \<open>Release of the sandbox\<close>

text \<open>
  C1. The claim: whatever happens after the sandbox is created, \<open>stop\<close> is called exactly
  once on it. Here the provider creates the sandbox and then rejects \<open>writeFiles\<close>:
  \<open>executeInSandbox\<close> fails with that error, and the calls it has issued are \<open>create\<close> and
  \<open>writeFiles\<close> only. \<open>stop\<close> is never called, neither by \<open>executeInSandbox\<close> nor by
  \<open>executeInSandboxStream\<close>. (Lemma \<open>executeInSandbox_stops\<close> gives the count in general:
  one if \<open>setupSandbox\<close> returns, none if it throws.)
\<close>

theorem sandbox_not_stopped_when_setup_fails:
  "fst (executeInSandbox write_fails_world sample_request 0) = Inl (ProviderFailure ''write failed'')
   \<and> calls (snd (executeInSandbox write_fails_world sample_request 0)) =
       [Create (Some ''snap_1''),
        WriteFiles [''server.mjs'', ''CLAUDE.md'', ''agent-config.json'', ''package.json'']]
   \<and> stop_count (calls (snd (executeInSandbox write_fails_world sample_request 0))) = 0
   \<and> stop_count (calls (snd (executeInSandboxStream write_fails_world sample_request 0))) = 0"
  by (simp add: executeInSandbox_def executeInSandboxStream_def setup_write_fails Let_def
      stop_count_def)

section \<open>Session continuity\<close>

text \<open>
  C2, as the code has it. The registry lives in the agent process. For two turns handled
  by the same process: if both carry the same non-empty conversation id and the first
  turn's stream had an \<open>init\<close> message with a session id, the second turn's \<open>query\<close> call
  resumes that session (the last such id of the first turn); a turn with another
  conversation id resumes exactly what it would have resumed without the first turn. A
  turn handled by a process that has just started resumes nothing.
\<close>

theorem session_continuity:
  "(in_conversationId in1 = Some c \<and> c \<noteq> [] \<and> in_conversationId in2 = Some c
      \<and> captured_token (sdk_messages (sdk1 (query_options config sessions in1))) = Some tok
    \<longrightarrow> q_resume (to_query (processMessage config
                  (to_sessions (processMessage config sessions in1 sdk1)) in2 sdk2)) = Some tok)
   \<and> (in_conversationId in1 \<noteq> in_conversationId in2
    \<longrightarrow> q_resume (to_query (processMessage config
                  (to_sessions (processMessage config sessions in1 sdk1)) in2 sdk2))
        = q_resume (to_query (processMessage config sessions in2 sdk2)))
   \<and> q_resume (to_query (sandboxed_turn config in2 sdk2)) = None"
proof (intro conjI impI)
  assume a: "in_conversationId in1 = Some c \<and> c \<noteq> [] \<and> in_conversationId in2 = Some c
      \<and> captured_token (sdk_messages (sdk1 (query_options config sessions in1))) = Some tok"
  then have "tok \<noteq> []" using captured_token_nonempty by blast
  with a show "q_resume (to_query (processMessage config
                  (to_sessions (processMessage config sessions in1 sdk1)) in2 sdk2)) = Some tok"
    by (simp add: to_query_processMessage to_sessions_processMessage resume_query_options truthy_def)
next
  assume "in_conversationId in1 \<noteq> in_conversationId in2"
  then show "q_resume (to_query (processMessage config
                  (to_sessions (processMessage config sessions in1 sdk1)) in2 sdk2))
        = q_resume (to_query (processMessage config sessions in2 sdk2))"
    by (auto simp add: to_query_processMessage to_sessions_processMessage resume_query_options
        split: option.splits)
next
  show "q_resume (to_query (sandboxed_turn config in2 sdk2)) = None"
    by (simp add: sandboxed_turn_def to_query_processMessage resume_query_options
        activeSessions_init_def truthy_def split: option.splits)
qed

text \<open>
  The theorem at two concrete turns of conversation \<open>conv-1\<close> in one process, and at a
  turn of \<open>conv-2\<close> after a turn of \<open>conv-1\<close>.
\<close>

theorem session_continuity_witness:
  "q_resume (to_query (processMessage default_config
       (to_sessions (processMessage default_config activeSessions_init
                       (turn_of ''conv-1'' ''hello'') first_sdk))
       (turn_of ''conv-1'' ''and then?'') first_sdk)) = Some ''sess-1''
   \<and> q_resume (to_query (processMessage default_config
       (to_sessions (processMessage default_config activeSessions_init
                       (turn_of ''conv-1'' ''hello'') first_sdk))
       (turn_of ''conv-2'' ''hi'') first_sdk)) = None"
proof -
  have c: "captured_token (sdk_messages (first_sdk
             (query_options default_config activeSessions_init (turn_of ''conv-1'' ''hello''))))
           = Some ''sess-1''"
    by (simp add: first_sdk_def)
  have n: "q_resume (to_query (processMessage default_config activeSessions_init
             (turn_of ''conv-2'' ''hi'') first_sdk)) = None"
    by (simp add: to_query_processMessage resume_query_options activeSessions_init_def
        turn_of_def truthy_def)
  show ?thesis
    using c n
      session_continuity [of "turn_of ''conv-1'' ''hello''" "''conv-1''"
        "turn_of ''conv-1'' ''and then?''" first_sdk default_config activeSessions_init
        "''sess-1''" first_sdk]
      session_continuity [of "turn_of ''conv-1'' ''hello''" "''conv-1''"
        "turn_of ''conv-2'' ''hi''" first_sdk default_config activeSessions_init
        "''sess-1''" first_sdk]
    by (simp add: turn_of_def)
qed

text \<open>
  C2 as stated fails: with each turn in its own sandbox, the first turn of \<open>conv-1\<close>
  captures the session id \<open>sess-1\<close> and stores it, and the second turn of \<open>conv-1\<close>
  resumes nothing.
\<close>

theorem fresh_sandbox_forgets_session:
  "captured_token (sdk_messages (first_sdk (to_query
       (sandboxed_turn default_config (turn_of ''conv-1'' ''hello'') first_sdk)))) = Some ''sess-1''
   \<and> to_sessions (sandboxed_turn default_config (turn_of ''conv-1'' ''hello'') first_sdk) ''conv-1''
       = Some ''sess-1''
   \<and> q_resume (to_query
       (sandboxed_turn default_config (turn_of ''conv-1'' ''and then?'') first_sdk)) = None"
  by (simp add: sandboxed_turn_def to_query_processMessage to_sessions_processMessage
      resume_query_options activeSessions_init_def turn_of_def first_sdk_def truthy_def)

section \<open>Tool and server lists of the settings resolver\<close>

text \<open>
  C3, as the code has it. When the modality has an override: the tool list is the
  override's allow-list if it gives one and the base list otherwise, and from that list
  the entries of the override's deny-list are removed if it gives one, also when the
  allow-list comes from the same override. The server set is the base set, restricted to
  the enabled names if the override gives them, minus the disabled names if it gives them.
\<close>

theorem getEffectiveSettings_lists:
  assumes "lookup_modality config modality = Some s"
  shows "eff_allowedTools (getEffectiveSettings config modality) =
           filter (\<lambda>t. case Option.bind (mrs_toolSettings s) ts_disabledTools of
                          None \<Rightarrow> True | Some deny \<Rightarrow> t \<notin> set deny)
             (case Option.bind (mrs_toolSettings s) ts_allowedTools of
                None \<Rightarrow> cfg_allowedTools config | Some allow \<Rightarrow> allow)
         \<and> eff_mcpServers (getEffectiveSettings config modality) =
           filter (\<lambda>(name, c).
                     (case Option.bind (mrs_mcpSettings s) ms_enabledServers of
                        None \<Rightarrow> True | Some enabled \<Rightarrow> name \<in> set enabled)
                     \<and> (case Option.bind (mrs_mcpSettings s) ms_disabledServers of
                          None \<Rightarrow> True | Some disabled \<Rightarrow> name \<notin> set disabled))
             (cfg_mcpServers config)"
proof -
  have tools: "eff_allowedTools (getEffectiveSettings config modality) =
           filter (\<lambda>t. case Option.bind (mrs_toolSettings s) ts_disabledTools of
                          None \<Rightarrow> True | Some deny \<Rightarrow> t \<notin> set deny)
             (case Option.bind (mrs_toolSettings s) ts_allowedTools of
                None \<Rightarrow> cfg_allowedTools config | Some allow \<Rightarrow> allow)"
    using assms by (simp add: getEffectiveSettings_def Let_def split: option.splits)
  have mcp: "eff_mcpServers (getEffectiveSettings config modality) =
           filter (\<lambda>(name, c).
                     (case Option.bind (mrs_mcpSettings s) ms_enabledServers of
                        None \<Rightarrow> True | Some enabled \<Rightarrow> name \<in> set enabled)
                     \<and> (case Option.bind (mrs_mcpSettings s) ms_disabledServers of
                          None \<Rightarrow> True | Some disabled \<Rightarrow> name \<notin> set disabled))
             (cfg_mcpServers config)"
    using assms
    by (auto simp add: getEffectiveSettings_def Let_def split: option.splits
        intro!: filter_cong)
  from tools mcp show ?thesis by (rule conjI)
qed

text \<open>
  The theorem at a configuration whose \<open>chat\<close> override gives all four lists.
\<close>

theorem getEffectiveSettings_lists_witness:
  "lookup_modality both_lists_config (Some ''chat'') = Some both_lists_override
   \<and> eff_allowedTools (getEffectiveSettings both_lists_config (Some ''chat''))
       = filter (\<lambda>t. t \<notin> set [''Bash'']) [''Read'', ''Bash'']
   \<and> eff_mcpServers (getEffectiveSettings both_lists_config (Some ''chat''))
       = filter (\<lambda>(name, c). name \<in> set [''crm'', ''billing''] \<and> name \<notin> set [''billing''])
           [(''crm'', McpServerConfig ''npx crm''), (''kb'', McpServerConfig ''npx kb'')]"
proof -
  have h: "lookup_modality both_lists_config (Some ''chat'') = Some both_lists_override"
    by (simp add: lookup_modality_def both_lists_config_def modality_entry_def)
  show ?thesis
    using h getEffectiveSettings_lists [OF h]
    by (simp add: both_lists_override_def both_lists_config_def)
qed

text \<open>
  C3 as stated fails: the \<open>chat\<close> override gives the allow-list \<open>Read, Bash\<close> and the
  deny-list \<open>Bash\<close>, and the resolved tool list is \<open>Read\<close>: the deny-list has been
  applied to the override's own allow-list. The enabled server \<open>billing\<close> is not in the
  base set and is not in the result either: the enabled names restrict, they do not replace.
\<close>

theorem deny_list_cuts_override_allow_list:
  "lookup_modality both_lists_config (Some ''chat'') = Some both_lists_override
   \<and> Option.bind (mrs_toolSettings both_lists_override) ts_allowedTools = Some [''Read'', ''Bash'']
   \<and> eff_allowedTools (getEffectiveSettings both_lists_config (Some ''chat'')) = [''Read'']
   \<and> Option.bind (mrs_mcpSettings both_lists_override) ms_enabledServers = Some [''crm'', ''billing'']
   \<and> eff_mcpServers (getEffectiveSettings both_lists_config (Some ''chat''))
       = [(''crm'', McpServerConfig ''npx crm'')]"
  by (simp add: getEffectiveSettings_def both_lists_config_def both_lists_override_def
      lookup_modality_def modality_entry_def)

section \<open>When health polling fails\<close>

text \<open>
  C4, as the code has it. \<open>pollHealth\<close> throws if and only if no attempt that starts
  before the deadline is healthy, that is, answered within two seconds with a 2xx status
  and a JSON body; what it throws is the health timeout. When it returns, the first
  healthy attempt is attempt \<open>k\<close>, each of the \<open>k\<close> failed attempts before it was followed
  by the sleep and another \<open>fetch\<close> (\<open>k + 1\<close> in all), and the clock is where that attempt
  ended.
\<close>

theorem pollHealth_raises_iff:
  "((\<exists>e. fst (pollHealth health url timeoutMs r) = Inl e)
      = (\<forall>k. attempt_start health (now r) k < now r + int timeoutMs \<longrightarrow> \<not> healthy (health k)))
   \<and> (\<forall>e. fst (pollHealth health url timeoutMs r) = Inl e \<longrightarrow> e = HealthTimeout)
   \<and> (\<forall>r'. pollHealth health url timeoutMs r = (Inr (), r') \<longrightarrow>
         (\<exists>k. healthy (health k) \<and> (\<forall>j<k. \<not> healthy (health j))
              \<and> calls r' = calls r @ replicate (Suc k) (Fetch (url @ ''/health''))
              \<and> now r' = attempt_start health (now r) k + int (snd (health_attempt (health k)))))"
proof (intro conjI allI impI)
  have e: "\<And>e. fst (pollHealth health url timeoutMs r) = Inl e \<Longrightarrow> e = HealthTimeout"
    unfolding pollHealth_def by (rule pollLoop_error)
  then show "\<And>e. fst (pollHealth health url timeoutMs r) = Inl e \<Longrightarrow> e = HealthTimeout" .
  from e have "(\<exists>e. fst (pollHealth health url timeoutMs r) = Inl e)
      = (fst (pollHealth health url timeoutMs r) = Inl HealthTimeout)"
    by blast
  then show "(\<exists>e. fst (pollHealth health url timeoutMs r) = Inl e)
      = (\<forall>k. attempt_start health (now r) k < now r + int timeoutMs \<longrightarrow> \<not> healthy (health k))"
    by (simp add: pollHealth_timeout_iff)
next
  fix r'
  assume "pollHealth health url timeoutMs r = (Inr (), r')"
  then have "pollLoop health (url @ ''/health'') (now r + int timeoutMs) 0 r = (Inr (), r')"
    by (simp add: pollHealth_def)
  from pollLoop_success [OF _ this, of "now r"]
  show "\<exists>k. healthy (health k) \<and> (\<forall>j<k. \<not> healthy (health j))
              \<and> calls r' = calls r @ replicate (Suc k) (Fetch (url @ ''/health''))
              \<and> now r' = attempt_start health (now r) k + int (snd (health_attempt (health k)))"
    by auto
qed

text \<open>
  The theorem at an endpoint that refuses every connection.
\<close>

theorem pollHealth_raises_iff_witness:
  "fst (pollHealth refusing ''https://sbx-1.example'' HEALTH_POLL_TIMEOUT_MS (start_run 0))
     = Inl HealthTimeout"
proof -
  have "\<forall>k. attempt_start refusing (now (start_run 0)) k
               < now (start_run 0) + int HEALTH_POLL_TIMEOUT_MS \<longrightarrow> \<not> healthy (refusing k)"
    by (simp add: healthy_def refusing_def)
  with pollHealth_raises_iff
         [of refusing "''https://sbx-1.example''" HEALTH_POLL_TIMEOUT_MS "start_run 0"]
  show ?thesis by blast
qed

text \<open>
  C4 as stated fails: the endpoint answers every attempt with status 200 and a body that
  is not JSON. The first attempt returns a success status, and \<open>pollHealth\<close> still throws
  the health timeout: \<open>res.json()\<close> throws inside the \<open>try\<close>, and the attempt counts as failed.
\<close>

theorem pollHealth_plain_ok_times_out:
  "reply (plain_ok 0) = HttpStatus 200 False \<and> ok_status 200
   \<and> fst (pollHealth plain_ok ''https://sbx-1.example'' HEALTH_POLL_TIMEOUT_MS (start_run 0))
       = Inl HealthTimeout"
  by (simp add: pollHealth_timeout_iff healthy_def plain_ok_def ok_status_def)

section \<open>Missing configuration\<close>

text \<open>
  C5. If the configuration bundle of the requested agent is missing on the host (its
  directory, CLAUDE.md or agent-config.json), then \<open>setupSandbox\<close>, \<open>executeInSandbox\<close>
  and \<open>executeInSandboxStream\<close> fail with \<open>ConfigNotFound\<close> and leave the state as it
  was: no call has been issued.
\<close>

theorem config_missing_no_network:
  assumes "config_missing (w_agentDirs w) (req_agentId request)"
  shows "\<exists>part.
           setupSandbox w request r0 = (Inl (ConfigNotFound part (req_agentId request)), r0)
           \<and> executeInSandbox w request t0
               = (Inl (ConfigNotFound part (req_agentId request)), start_run t0)
           \<and> executeInSandboxStream w request t0
               = (Inl (ConfigNotFound part (req_agentId request)), start_run t0)
           \<and> calls (start_run t0) = []"
proof -
  from loadAgentConfig_missing [OF assms]
  obtain part where
    "loadAgentConfig (w_agentDirs w) (req_agentId request)
       = Inl (ConfigNotFound part (req_agentId request))"
    by blast
  then have s: "\<And>r. setupSandbox w request r = (Inl (ConfigNotFound part (req_agentId request)), r)"
    by (simp add: setupSandbox_def)
  show ?thesis
    by (rule exI [of _ part])
       (simp add: s executeInSandbox_def executeInSandboxStream_def Let_def start_run_def)
qed

text \<open>
  The theorem for the agent \<open>ghost\<close>, which has no directory on the sample host.
\<close>

theorem config_missing_no_network_witness:
  "config_missing (w_agentDirs good_world) ''ghost''
   \<and> (\<exists>part. executeInSandbox good_world (sample_request\<lparr>req_agentId := ''ghost''\<rparr>) 0
               = (Inl (ConfigNotFound part ''ghost''), start_run 0))
   \<and> calls (start_run 0) = []"
proof -
  have h: "config_missing (w_agentDirs good_world)
             (req_agentId (sample_request\<lparr>req_agentId := ''ghost''\<rparr>))"
    by (simp add: config_missing_def good_world_def)
  show ?thesis
    using h config_missing_no_network [OF h, of "start_run 0" 0]
    by auto
qed

section \<open>Timing of health polling\<close>




section \<open>Validation at the gateway\<close>



section \<open>The timing record\<close>

text \<open>
  C8, as the code has it. In the timing record of a successful buffered request every
  field is non-negative, and \<open>total\<close> is the sum of the five parts plus the time spent
  reading the host files plus, when there is no snapshot, the time of the dependency
  installation; so \<open>total\<close> is at least the sum of the parts.
\<close>

theorem timing_total:
  assumes "executeInSandbox w req t0 = (Inr (resp, tm), r)"
  shows "0 \<le> sandboxCreate tm \<and> 0 \<le> fileWrite tm \<and> 0 \<le> serverStart tm
         \<and> 0 \<le> healthPoll tm \<and> 0 \<le> agentProcess tm \<and> 0 \<le> total tm
         \<and> total tm = sandboxCreate tm + fileWrite tm + serverStart tm + healthPoll tm
               + agentProcess tm + int (w_loadTime w)
               + (if getSnapshotId (w_snapshotFile w) = None then int (snd (w_install w)) else 0)
         \<and> sandboxCreate tm + fileWrite tm + serverStart tm + healthPoll tm + agentProcess tm
               \<le> total tm"
proof (cases "setupSandbox w req (start_run t0)")
  case (Pair res r1)
  show ?thesis
  proof (cases res)
    case (Inl e)
    with Pair assms show ?thesis
      by (simp add: executeInSandbox_def Let_def)
  next
    case (Inr x)
    from setupSandbox_timing [OF Pair [unfolded Inr]]
    have t: "sandboxCreate (timing r1) = int (snd (w_create w))"
      "fileWrite (timing r1) = int (snd (w_writeFiles w))"
      "serverStart (timing r1) = int (snd (w_start w))"
      "0 \<le> healthPoll (timing r1)"
      "now r1 = t0 + int (w_loadTime w) + int (snd (w_create w)) + int (snd (w_writeFiles w))
           + (if getSnapshotId (w_snapshotFile w) = None then int (snd (w_install w)) else 0)
           + int (snd (w_start w)) + healthPoll (timing r1)"
      by (simp_all add: start_run_def)
    from assms Pair Inr
    have tm: "tm = (timing r1)\<lparr>agentProcess := int (snd (w_process w)),
                 total := now r1 + int (snd (w_process w)) - t0\<rparr>"
      by (auto simp add: executeInSandbox_def Let_def step_def start_run_def
          split: prod.splits Outcome.splits option.splits if_splits)
    show ?thesis
      using t by (simp add: tm)
  qed
qed

text \<open>
  The theorem at the sample provider, which has a snapshot: the total of 7523 ms is the
  7520 ms of the parts and 3 ms of reading the host files.
\<close>

theorem timing_total_witness:
  "fst (executeInSandbox good_world sample_request 0) =
     Inr (sample_reply,
          \<lparr> sandboxCreate = 800, fileWrite = 120, serverStart = 40, healthPoll = 1560,
            agentProcess = 5000, total = 7523 \<rparr>)
   \<and> (7523 :: int) = 800 + 120 + 40 + 1560 + 5000 + int (w_loadTime good_world)
       + (if getSnapshotId (w_snapshotFile good_world) = None
          then int (snd (w_install good_world)) else 0)"
proof -
  have e: "executeInSandbox good_world sample_request 0 =
     (Inr (sample_reply,
           \<lparr> sandboxCreate = 800, fileWrite = 120, serverStart = 40, healthPoll = 1560,
             agentProcess = 5000, total = 7523 \<rparr>),
      snd (executeInSandbox good_world sample_request 0))"
    using exec_good_world by (simp add: prod_eq_iff)
  from timing_total [OF e] exec_good_world show ?thesis
    by simp
qed

text \<open>
  C8 as stated fails: without a snapshot the installation takes 20 s here, which no part
  records. The parts add up to 7520 ms and the total is 27523 ms.
\<close>

theorem install_time_outside_parts:
  "fst (executeInSandbox no_snapshot_world sample_request 0) =
     Inr (sample_reply,
          \<lparr> sandboxCreate = 800, fileWrite = 120, serverStart = 40, healthPoll = 1560,
            agentProcess = 5000, total = 27523 \<rparr>)"
  by (simp add: executeInSandbox_def setup_no_snapshot_world Let_def start_run_simps)
     (simp add: no_snapshot_world_def good_world_def ok_status_def step_def start_run_simps)

section \<open>The two streaming handlers\<close>

text \<open>
  C9. The claim: the two streaming handlers deliver the same bytes to the caller. For an
  upstream of two chunks and a caller that reads to the end, the variant that pipes the
  response's own body stream delivers no chunk, and the variant with the
  \<open>TransformStream\<close> delivers both. (Both run \<open>cleanup\<close> once.)
\<close>

theorem direct_relay_delivers_nothing:
  "relay_direct sample_upstream None = []
   \<and> relay_transform sample_upstream None = [''event: start'', ''event: done'']
   \<and> fst (post_process_stream good_world (Some sample_body) None 0) = EventStream []
   \<and> fst (post_process_stream_transform good_world (Some sample_body) None 0)
       = EventStream [''event: start'', ''event: done'']"
proof -
  have "executeInSandboxStream good_world sample_request 0 =
          (Inr (sample_upstream, Sandbox ''sbx_1''),
           step (Fetch ''https://sbx-1.example/process/stream'') 50
             (snd (setupSandbox good_world sample_request (start_run 0))))"
    by (simp add: executeInSandboxStream_def setup_good_world Let_def ok_status_def)
       (simp add: good_world_def ok_status_def)
  then show ?thesis
    by (simp add: post_process_stream_def post_process_stream_transform_def
        validate_sample_body relay_direct_nothing relay_transform_all sample_upstream_def)
qed

section \<open>A success result without structured output\<close>

text \<open>
  C10. If the SDK's stream ends without throwing, contains a success result and no success
  result of it carries structured output, then \<open>processMessage\<close> returns a result whose
  response is the fixed apology and whose confidence is \<open>high\<close> if an assistant message
  had a \<open>tool_use\<close> block and \<open>medium\<close> otherwise.
\<close>

theorem no_structured_output_fallback:
  assumes "sdk_failure (sdk (query_options config sessions input)) = None"
    and "\<exists>m \<in> set (sdk_messages (sdk (query_options config sessions input))). is_success_result m"
    and "\<forall>m \<in> set (sdk_messages (sdk (query_options config sessions input))).
           is_success_result m \<longrightarrow> \<not> has_structured_output m"
  shows "\<exists>r. to_result (processMessage config sessions input sdk) = Inr r
           \<and> pm_response r = no_output_text
           \<and> pm_confidence r =
               (if \<exists>content i n.
                     AssistantMessage content \<in> set (sdk_messages (sdk (query_options config sessions input)))
                     \<and> ToolUseBlock i n \<in> set content
                then high else medium)"
  using assms
  by (simp add: processMessage_def Let_def response_foldl metadata_foldl tools_foldl
      used_tools_empty)

text \<open>
  The theorem at a stream with one \<open>Read\<close> tool use and a success result without output.
\<close>

theorem no_structured_output_fallback_witness:
  "\<exists>r. to_result (processMessage default_config activeSessions_init
            (turn_of ''conv-1'' ''hello'') first_sdk) = Inr r
       \<and> pm_response r = ''I apologize, but I encountered an issue generating a response.''
       \<and> pm_confidence r = high"
proof -
  let ?msgs = "sdk_messages (first_sdk
                 (query_options default_config activeSessions_init (turn_of ''conv-1'' ''hello'')))"
  have m: "?msgs = [SystemMessage ''init'' (Some ''sess-1''),
          AssistantMessage [TextBlock ''Looking it up'', ToolUseBlock ''t1'' ''Read''],
          ResultMessage ''success'' False None None None]"
    by (simp add: first_sdk_def)
  have a: "sdk_failure (first_sdk
             (query_options default_config activeSessions_init (turn_of ''conv-1'' ''hello''))) = None"
    by (simp add: first_sdk_def)
  have b: "\<exists>m \<in> set ?msgs. is_success_result m"
    by (simp add: m)
  have c: "\<forall>m \<in> set ?msgs. is_success_result m \<longrightarrow> \<not> has_structured_output m"
    by (simp add: m)
  have t: "\<exists>content i n. AssistantMessage content \<in> set ?msgs \<and> ToolUseBlock i n \<in> set content"
    unfolding m by (intro exI [of _ "[TextBlock ''Looking it up'', ToolUseBlock ''t1'' ''Read'']"]
        exI [of _ "''t1''"] exI [of _ "''Read''"]) simp
  from no_structured_output_fallback
         [of first_sdk default_config activeSessions_init "turn_of ''conv-1'' ''hello''",
          OF a b c] t
  show ?thesis
    by (simp add: no_output_text_def)
qed

end
